theory Spec2Isabelle
  imports Complex_Main
begin

section \<open>Values, errors and the module namespace\<close>

text \<open>
  The notebook holds four Python definitions, all inside markdown cells:
  \<^verbatim>\<open>increment\<close>, \<^verbatim>\<open>test_increment\<close>, \<^verbatim>\<open>test_eq_roots\<close> and \<^verbatim>\<open>eq_roots\<close>.
  The data they handle are Python integers (unbounded, hence \<open>int\<close>) and tuples.
  Floating point values are not modelled.
\<close>

datatype pyval = VInt int | VTuple "pyval list"

text \<open>
  The exceptions the four bodies can raise: a free name that is bound nowhere
  (\<^verbatim>\<open>NameError\<close>, with the name), an operator applied to operands it does not
  support or the unpacking of a non-iterable (\<^verbatim>\<open>TypeError\<close>), the unpacking of a
  tuple of the wrong length (\<^verbatim>\<open>ValueError\<close>) and a failed \<^verbatim>\<open>assert\<close>.
\<close>

datatype py_error = NameError string | TypeError | ValueError | AssertionError

text \<open>
  A name that a function body reads and never assigns is a global name. The names bound
  by \<^verbatim>\<open>def\<close> are resolved to the definitions below; every other global name is read
  from the module namespace, a map from names to values. A call returns its result (or
  the exception it raised) together with the namespace it leaves behind.
\<close>

type_synonym namespace = "string \<rightharpoonup> pyval"

type_synonym 'a outcome = "(py_error + 'a) \<times> namespace"

definition load_global :: "namespace \<Rightarrow> string \<Rightarrow> py_error + pyval" where
  "load_global g n = (case g n of None \<Rightarrow> Inl (NameError n) | Some v \<Rightarrow> Inr v)"

text \<open>
  The notebook has no module-level assignment: its own namespace binds no data name.
\<close>

definition notebook_globals :: namespace where
  "notebook_globals = Map.empty"

subsection \<open>The operators the bodies use\<close>

text \<open>\<^verbatim>\<open>v + w\<close>: integer addition, tuple concatenation, \<^verbatim>\<open>TypeError\<close> otherwise.\<close>

fun py_add :: "pyval \<Rightarrow> pyval \<Rightarrow> py_error + pyval" where
  "py_add (VInt m) (VInt n) = Inr (VInt (m + n))"
| "py_add (VTuple xs) (VTuple ys) = Inr (VTuple (xs @ ys))"
| "py_add (VInt m) (VTuple ys) = Inl TypeError"
| "py_add (VTuple xs) (VInt n) = Inl TypeError"

text \<open>\<^verbatim>\<open>v - w\<close>: defined on integers only.\<close>

fun py_sub :: "pyval \<Rightarrow> pyval \<Rightarrow> py_error + pyval" where
  "py_sub (VInt m) (VInt n) = Inr (VInt (m - n))"
| "py_sub (VInt m) (VTuple ys) = Inl TypeError"
| "py_sub (VTuple xs) w = Inl TypeError"

text \<open>
  \<^verbatim>\<open>v == w\<close> never raises on these values: integers are equal when they are the same
  number, tuples when they have the same length and equal items, and an integer never
  equals a tuple. That is the equality of \<open>pyval\<close>.
\<close>

definition py_eq :: "pyval \<Rightarrow> pyval \<Rightarrow> bool" where
  "py_eq v w = (v = w)"

text \<open>
  \<^verbatim>\<open>v >= w\<close>: the order of the integers; on tuples the comparison of the first pair of
  items that differ, or of the lengths when one tuple is a prefix of the other; an
  integer and a tuple are not ordered (\<^verbatim>\<open>TypeError\<close>).
\<close>

fun py_ge :: "pyval \<Rightarrow> pyval \<Rightarrow> py_error + bool"
  and tuple_ge :: "pyval list \<Rightarrow> pyval list \<Rightarrow> py_error + bool" where
  "py_ge (VInt m) (VInt n) = Inr (n \<le> m)"
| "py_ge (VTuple xs) (VTuple ys) = tuple_ge xs ys"
| "py_ge (VInt m) (VTuple ys) = Inl TypeError"
| "py_ge (VTuple xs) (VInt n) = Inl TypeError"
| "tuple_ge [] [] = Inr True"
| "tuple_ge [] (y # ys) = Inr False"
| "tuple_ge (x # xs) [] = Inr True"
| "tuple_ge (x # xs) (y # ys) = (if py_eq x y then tuple_ge xs ys else py_ge x y)"

text \<open>\<^verbatim>\<open>r1, r2 = v\<close>: only a tuple of exactly two items unpacks.\<close>

fun unpack2 :: "pyval \<Rightarrow> py_error + (pyval \<times> pyval)" where
  "unpack2 (VTuple [v, w]) = Inr (v, w)"
| "unpack2 (VTuple xs) = Inl ValueError"
| "unpack2 (VInt n) = Inl TypeError"

section \<open>The increment example\<close>

text \<open>
  \<^verbatim>\<open>
  def increment(x):
      return x + 1
  \<close>
  The body reads its parameter only and assigns nothing: the namespace is returned as
  it came.
\<close>

definition increment :: "namespace \<Rightarrow> pyval \<Rightarrow> pyval outcome" where
  "increment g x = (py_add x (VInt 1), g)"

text \<open>
  \<^verbatim>\<open>
  @given(st.integers())
  def test_increment(x):
      assert increment(x) - 1 == x
  \<close>
  The generated \<^verbatim>\<open>x\<close> is an integer. The test returns \<^verbatim>\<open>None\<close> (here \<open>()\<close>) when the
  assertion holds. The earlier example-based \<^verbatim>\<open>test_increment\<close> of the notebook is this
  body at \<^verbatim>\<open>x = 10\<close>.
\<close>

definition test_increment :: "namespace \<Rightarrow> int \<Rightarrow> unit outcome" where
  "test_increment g x =
     (case increment g (VInt x) of
        (Inl e, g1) \<Rightarrow> (Inl e, g1)
      | (Inr y, g1) \<Rightarrow>
          (case py_sub y (VInt 1) of
             Inl e \<Rightarrow> (Inl e, g1)
           | Inr z \<Rightarrow> (if py_eq z (VInt x) then Inr () else Inl AssertionError, g1)))"

section \<open>The quadratic roots exercise\<close>

text \<open>
  \<^verbatim>\<open>
  def eq_roots(coefficients):
      """
      Returns the non-complex roots of a quadratic equation.
      """
      ...

      return root1, root2
  \<close>
  The docstring and the ellipsis are expression statements without effect. The body
  assigns neither \<^verbatim>\<open>root1\<close> nor \<^verbatim>\<open>root2\<close>, so both are global names, read in this
  order when the tuple is built. The parameter is never read.
\<close>

definition eq_roots :: "namespace \<Rightarrow> pyval \<Rightarrow> pyval outcome" where
  "eq_roots g coefficients =
     (case load_global g ''root1'' of
        Inl e \<Rightarrow> (Inl e, g)
      | Inr root1 \<Rightarrow>
          (case load_global g ''root2'' of
             Inl e \<Rightarrow> (Inl e, g)
           | Inr root2 \<Rightarrow> (Inr (VTuple [root1, root2]), g)))"

text \<open>
  The expression \<^verbatim>\<open>b**2 - 4*a*c\<close> that \<^verbatim>\<open>test_eq_roots\<close> assigns to its local
  variable \<^verbatim>\<open>discriminant\<close>, on Python's unbounded integers.
\<close>

definition discriminant :: "int \<Rightarrow> int \<Rightarrow> int \<Rightarrow> int" where
  "discriminant a b c = b ^ 2 - 4 * a * c"

text \<open>
  \<^verbatim>\<open>
  @given(st.integers(), st.integers(), st.integers())
  def test_eq_roots(a, b, c):
      discriminant = b**2 - 4*a*c
      # Uncomment the following line.
      # assume(discriminant...)
      r1, r2 = eq_roots(coefficients)
      assert r1 >= r2
  \<close>
  The call to \<^verbatim>\<open>assume\<close> is a comment, so nothing is executed between the assignment
  and the call of \<^verbatim>\<open>eq_roots\<close>. The local \<^verbatim>\<open>discriminant\<close> (\<open>d\<close> below) is not read
  again. \<^verbatim>\<open>coefficients\<close> is not a parameter and is never assigned: a global name.

  The body is modelled in two steps, so that reaching the assertion can be stated: the
  statements before the \<^verbatim>\<open>assert\<close>, which end with \<^verbatim>\<open>r1\<close> and \<^verbatim>\<open>r2\<close> bound or
  with an exception, and the \<^verbatim>\<open>assert\<close> itself.
\<close>

definition test_eq_roots_until_assert ::
  "namespace \<Rightarrow> int \<Rightarrow> int \<Rightarrow> int \<Rightarrow> (pyval \<times> pyval) outcome" where
  "test_eq_roots_until_assert g a b c =
     (let d = discriminant a b c in
      case load_global g ''coefficients'' of
        Inl e \<Rightarrow> (Inl e, g)
      | Inr coefficients \<Rightarrow>
          (case eq_roots g coefficients of
             (Inl e, g1) \<Rightarrow> (Inl e, g1)
           | (Inr v, g1) \<Rightarrow>
               (case unpack2 v of
                  Inl e \<Rightarrow> (Inl e, g1)
                | Inr (r1, r2) \<Rightarrow> (Inr (r1, r2), g1))))"

definition test_eq_roots :: "namespace \<Rightarrow> int \<Rightarrow> int \<Rightarrow> int \<Rightarrow> unit outcome" where
  "test_eq_roots g a b c =
     (case test_eq_roots_until_assert g a b c of
        (Inl e, g1) \<Rightarrow> (Inl e, g1)
      | (Inr (r1, r2), g1) \<Rightarrow>
          (case py_ge r1 r2 of
             Inl e \<Rightarrow> (Inl e, g1)
           | Inr holds \<Rightarrow> (if holds then Inr () else Inl AssertionError, g1)))"

section \<open>What the bodies compute\<close>

text \<open>
  The two bodies of the exercise, with the name lookups unfolded: each free name is
  bound or raises, in the order in which the body reads them.
\<close>

lemma eq_roots_value:
  "eq_roots g cs =
     (case g ''root1'' of
        None \<Rightarrow> (Inl (NameError ''root1''), g)
      | Some r1 \<Rightarrow>
          (case g ''root2'' of
             None \<Rightarrow> (Inl (NameError ''root2''), g)
           | Some r2 \<Rightarrow> (Inr (VTuple [r1, r2]), g)))"
  by (simp add: eq_roots_def load_global_def split: option.splits)

lemma until_assert_value:
  "test_eq_roots_until_assert g a b c =
     (case g ''coefficients'' of
        None \<Rightarrow> (Inl (NameError ''coefficients''), g)
      | Some cs \<Rightarrow>
          (case g ''root1'' of
             None \<Rightarrow> (Inl (NameError ''root1''), g)
           | Some r1 \<Rightarrow>
               (case g ''root2'' of
                  None \<Rightarrow> (Inl (NameError ''root2''), g)
                | Some r2 \<Rightarrow> (Inr (r1, r2), g))))"
  by (simp add: test_eq_roots_until_assert_def eq_roots_value load_global_def
      split: option.splits)

text \<open>
  A real quadratic with a real root has a non-negative discriminant, by completing the
  square: \<open>(2Ax + B)\<^sup>2 = B\<^sup>2 - 4AC + 4A(Ax\<^sup>2 + Bx + C)\<close>.
\<close>

lemma real_root_disc:
  fixes A B C x :: real
  assumes "A * x^2 + B * x + C = 0"
  shows "0 \<le> B^2 - 4 * A * C"
proof -
  have "(2 * A * x + B)^2 = B^2 - 4 * A * C + 4 * A * (A * x^2 + B * x + C)"
    by (simp add: power2_eq_square algebra_simps)
  then have "B^2 - 4 * A * C = (2 * A * x + B)^2"
    using assms by simp
  then show ?thesis by simp
qed

text \<open>Conversely \<open>(- B + sqrt (B\<^sup>2 - 4AC)) / 2A\<close> is a root when the discriminant allows it.\<close>

lemma disc_real_root:
  fixes A B C :: real
  assumes "A \<noteq> 0" and "0 \<le> B^2 - 4 * A * C"
  shows "\<exists>x. A * x^2 + B * x + C = 0"
proof -
  define s where "s = sqrt (B^2 - 4 * A * C)"
  define x where "x = (- B + s) / (2 * A)"
  have s2: "s^2 = B^2 - 4 * A * C"
    using assms(2) by (simp add: s_def)
  have lin: "2 * A * x + B = s"
    using assms(1) by (simp add: x_def)
  have "4 * A * (A * x^2 + B * x + C) = (2 * A * x + B)^2 - (B^2 - 4 * A * C)"
    by (simp add: power2_eq_square algebra_simps)
  also have "\<dots> = 0"
    using s2 lin by simp
  finally have "A * x^2 + B * x + C = 0"
    using assms(1) by simp
  then show ?thesis ..
qed

lemma of_int_discriminant:
  "(of_int (discriminant a b c) :: real) = (of_int b)^2 - 4 * of_int a * of_int c"
  by (simp add: discriminant_def)

section \<open>Properties of increment\<close>

text \<open>
  C1. For every integer \<open>x\<close>, \<^verbatim>\<open>increment(x)\<close> returns \<open>x + 1\<close>, subtracting one from the
  result gives \<open>x\<close> back, and so the property test passes on every generated integer.
\<close>

theorem increment_returns_successor:
  "fst (increment g (VInt x)) = Inr (VInt (x + 1))
   \<and> (case fst (increment g (VInt x)) of Inl e \<Rightarrow> Inl e | Inr y \<Rightarrow> py_sub y (VInt 1))
       = Inr (VInt x)
   \<and> fst (test_increment g x) = Inr ()"
  by (simp add: increment_def test_increment_def py_eq_def)

text \<open>
  On the integers, the inputs the property test generates, \<^verbatim>\<open>increment\<close> returns a
  value and raises nothing, and it hands the namespace back unchanged, on any argument;
  so does the test built on it. Other numeric types of Python (floating point, complex,
  decimal) are not values of \<open>pyval\<close>, and nothing is stated about them.
\<close>

theorem increment_no_error_no_effect:
  "(\<exists>y. increment g (VInt x) = (Inr (VInt y), g))
   \<and> (\<forall>e. fst (increment g (VInt x)) \<noteq> Inl e)
   \<and> snd (increment g v) = g
   \<and> snd (test_increment g x) = g"
  by (simp add: increment_def test_increment_def py_eq_def)

text \<open>
  C8. \<^verbatim>\<open>increment\<close> is strictly monotone and injective on the integers: a smaller
  argument gives a smaller result, and equal results come from equal arguments.
\<close>

theorem increment_strict_mono_inj:
  "(x < y \<longrightarrow>
      (\<exists>x' y'. fst (increment g (VInt x)) = Inr (VInt x')
         \<and> fst (increment g' (VInt y)) = Inr (VInt y') \<and> x' < y'))
   \<and> (fst (increment g (VInt u)) = fst (increment g' (VInt w)) \<longrightarrow> u = w)"
  by (simp add: increment_def)

theorem increment_strict_mono_inj_witness:
  "(3::int) < 5
   \<and> (\<exists>x' y'. fst (increment notebook_globals (VInt 3)) = Inr (VInt x')
         \<and> fst (increment notebook_globals (VInt 5)) = Inr (VInt y') \<and> x' < y')
   \<and> fst (increment notebook_globals (VInt 7)) = fst (increment notebook_globals (VInt 7))
   \<and> (7::int) = 7"
  using increment_strict_mono_inj [of 3 5 notebook_globals notebook_globals 7 7]
  by simp

text \<open>
  C9. \<^verbatim>\<open>increment\<close> is deterministic: two evaluations on equal integers give equal
  results, whatever the two namespaces they run in, and the outcome of the property test
  depends on the generated \<^verbatim>\<open>x\<close> alone.
\<close>

theorem increment_deterministic:
  "x = y \<Longrightarrow>
     fst (increment g (VInt x)) = fst (increment g' (VInt y))
     \<and> fst (test_increment g x) = fst (test_increment g' y)"
  by (simp add: increment_def test_increment_def)

theorem increment_deterministic_witness:
  "(10::int) = 10
   \<and> fst (increment notebook_globals (VInt 10)) = fst (increment [''x'' \<mapsto> VInt 0] (VInt 10))
   \<and> fst (test_increment notebook_globals 10) = fst (test_increment [''x'' \<mapsto> VInt 0] 10)"
  using increment_deterministic [of 10 10 notebook_globals "[''x'' \<mapsto> VInt 0]"]
  by simp

section \<open>Properties of the discriminant\<close>

text \<open>
  C7. For all integers \<open>a\<close>, \<open>b\<close>, \<open>c\<close> the value assigned to \<^verbatim>\<open>discriminant\<close> is exactly
  \<open>b\<^sup>2 - 4ac\<close> on the unbounded integers, and for \<open>a \<noteq> 0\<close> its sign decides whether the
  quadratic has a real root: it has one exactly when the value is not negative.
\<close>

theorem discriminant_exact:
  "discriminant a b c = b * b - 4 * (a * c)
   \<and> (a \<noteq> 0 \<longrightarrow>
        ((\<exists>x::real. of_int a * x^2 + of_int b * x + of_int c = 0)
          \<longleftrightarrow> 0 \<le> discriminant a b c))"
proof (intro conjI impI)
  show "discriminant a b c = b * b - 4 * (a * c)"
    by (simp add: discriminant_def power2_eq_square)
next
  assume a: "a \<noteq> 0"
  have iff: "0 \<le> discriminant a b c
      \<longleftrightarrow> (0::real) \<le> (of_int b)^2 - 4 * of_int a * of_int c"
    unfolding of_int_discriminant [symmetric] by simp
  show "(\<exists>x::real. of_int a * x^2 + of_int b * x + of_int c = 0)
      \<longleftrightarrow> 0 \<le> discriminant a b c"
  proof
    assume "\<exists>x::real. of_int a * x^2 + of_int b * x + of_int c = 0"
    then obtain x :: real where "of_int a * x^2 + of_int b * x + of_int c = 0" ..
    from real_root_disc [OF this] show "0 \<le> discriminant a b c"
      using iff by simp
  next
    assume "0 \<le> discriminant a b c"
    then have "(0::real) \<le> (of_int b)^2 - 4 * of_int a * of_int c"
      using iff by simp
    moreover have "(of_int a :: real) \<noteq> 0"
      using a by simp
    ultimately show "\<exists>x::real. of_int a * x^2 + of_int b * x + of_int c = 0"
      by (rule disc_real_root [rotated])
  qed
qed

text \<open>At \<open>x\<^sup>2 + 2\<^sup>3\<^sup>2 x - 1\<close> the value is beyond 64 bits, and the quadratic has a real root.\<close>

theorem discriminant_exact_witness:
  "(1::int) \<noteq> 0 \<and> discriminant 1 (2 ^ 32) (- 1) = 2 ^ 64 + 4
   \<and> (\<exists>x::real. of_int 1 * x^2 + of_int (2 ^ 32) * x + of_int (- 1) = 0)"
  using discriminant_exact [of 1 "2 ^ 32" "- 1"] by simp

section \<open>Properties of the quadratic roots exercise\<close>

text \<open>
  The coefficients \<open>(1, 0, -1)\<close> of \<open>x\<^sup>2 - 1\<close> have a non-zero leading coefficient and
  the discriminant 4, and in the notebook's namespace \<^verbatim>\<open>eq_roots\<close> raises on them
  instead of returning the roots 1 and -1.
\<close>

theorem eq_roots_no_roots_counterexample:
  "(1::int) \<noteq> 0 \<and> 0 \<le> discriminant 1 0 (- 1)
   \<and> fst (eq_roots notebook_globals (VTuple [VInt 1, VInt 0, VInt (- 1)]))
       = Inl (NameError ''root1'')"
  by (simp add: eq_roots_value notebook_globals_def discriminant_def)

text \<open>
  C2, as the body stands. For every coefficient triple with \<open>a \<noteq> 0\<close> and a non-negative
  discriminant, \<^verbatim>\<open>eq_roots\<close> computes nothing from the coefficients: any other argument
  gives the same outcome, and in the notebook's namespace the call returns no value.
  Returning the non-complex roots is what the docstring asks of the reader.
\<close>

theorem eq_roots_ignores_coefficients:
  assumes "a \<noteq> 0" and "0 \<le> discriminant a b c"
  shows "eq_roots g (VTuple [VInt a, VInt b, VInt c]) = eq_roots g cs
         \<and> (\<forall>v. fst (eq_roots notebook_globals (VTuple [VInt a, VInt b, VInt c])) \<noteq> Inr v)"
  by (simp add: eq_roots_value notebook_globals_def)

theorem eq_roots_ignores_coefficients_witness:
  "(1::int) \<noteq> 0 \<and> 0 \<le> discriminant 1 0 (- 1)
   \<and> eq_roots [''root1'' \<mapsto> VInt 5, ''root2'' \<mapsto> VInt 7] (VTuple [VInt 1, VInt 0, VInt (- 1)])
       = eq_roots [''root1'' \<mapsto> VInt 5, ''root2'' \<mapsto> VInt 7] (VTuple [VInt 1, VInt 0, VInt 1])
   \<and> fst (eq_roots notebook_globals (VTuple [VInt 1, VInt 0, VInt (- 1)]))
       \<noteq> Inr (VTuple [VInt 1, VInt (- 1)])"
proof -
  have h1: "(1::int) \<noteq> 0"
    by simp
  have h2: "0 \<le> discriminant 1 0 (- 1)"
    by (simp add: discriminant_def)
  show ?thesis
    using h1 h2
      eq_roots_ignores_coefficients [OF h1 h2,
        of "[''root1'' \<mapsto> VInt 5, ''root2'' \<mapsto> VInt 7]" "VTuple [VInt 1, VInt 0, VInt 1]"]
    by simp
qed

text \<open>
  C4. \<^verbatim>\<open>eq_roots\<close> is unimplemented: the notebook binds neither \<^verbatim>\<open>root1\<close> nor
  \<^verbatim>\<open>root2\<close>, so on every argument the call raises \<^verbatim>\<open>NameError\<close> at \<^verbatim>\<open>root1\<close> and
  returns no pair; in any namespace that leaves one of the two names unbound the call
  raises \<^verbatim>\<open>NameError\<close> at one of them.
\<close>

theorem eq_roots_unimplemented:
  "notebook_globals ''root1'' = None \<and> notebook_globals ''root2'' = None
   \<and> eq_roots notebook_globals cs = (Inl (NameError ''root1''), notebook_globals)
   \<and> (g ''root1'' = None \<or> g ''root2'' = None
        \<longrightarrow> fst (eq_roots g cs) = Inl (NameError ''root1'')
            \<or> fst (eq_roots g cs) = Inl (NameError ''root2''))"
  by (auto simp add: eq_roots_value notebook_globals_def split: option.splits)

theorem eq_roots_unimplemented_witness:
  "[''root1'' \<mapsto> VInt 3] ''root2'' = None
   \<and> fst (eq_roots [''root1'' \<mapsto> VInt 3] (VTuple [VInt 1, VInt 0, VInt (- 1)]))
       = Inl (NameError ''root2'')"
  using eq_roots_unimplemented [of "VTuple [VInt 1, VInt 0, VInt (- 1)]" "[''root1'' \<mapsto> VInt 3]"]
  by (simp add: eq_roots_value)

text \<open>
  The body of \<^verbatim>\<open>test_eq_roots\<close> never reads \<^verbatim>\<open>a\<close>, \<^verbatim>\<open>b\<close>, \<^verbatim>\<open>c\<close> or
  \<^verbatim>\<open>discriminant\<close> after the assignment, the call of \<^verbatim>\<open>assume\<close> being a comment:
  in any namespace, what happens is the same for every generated triple.
\<close>

lemma test_eq_roots_ignores_triple:
  "test_eq_roots_until_assert g a b c = test_eq_roots_until_assert g a' b' c'
   \<and> test_eq_roots g a b c = test_eq_roots g a' b' c'"
  by (simp add: test_eq_roots_def until_assert_value)



text \<open>
  C10. \<^verbatim>\<open>test_eq_roots\<close> passes the name \<^verbatim>\<open>coefficients\<close> to \<^verbatim>\<open>eq_roots\<close>, which is
  neither a parameter nor bound by the notebook: for every generated triple the test
  raises \<^verbatim>\<open>NameError\<close> at \<^verbatim>\<open>coefficients\<close> before the assertion, as it does in every
  namespace that leaves the name unbound.
\<close>

theorem test_eq_roots_unbound_coefficients:
  "notebook_globals ''coefficients'' = None
   \<and> test_eq_roots_until_assert notebook_globals a b c
       = (Inl (NameError ''coefficients''), notebook_globals)
   \<and> test_eq_roots notebook_globals a b c = (Inl (NameError ''coefficients''), notebook_globals)
   \<and> (g ''coefficients'' = None
        \<longrightarrow> fst (test_eq_roots g a b c) = Inl (NameError ''coefficients''))"
  by (simp add: test_eq_roots_def until_assert_value notebook_globals_def)

theorem test_eq_roots_unbound_coefficients_witness:
  "[''root1'' \<mapsto> VInt 2, ''root2'' \<mapsto> VInt 1] ''coefficients'' = None
   \<and> fst (test_eq_roots [''root1'' \<mapsto> VInt 2, ''root2'' \<mapsto> VInt 1] 1 0 (- 1))
       = Inl (NameError ''coefficients'')"
  using test_eq_roots_unbound_coefficients
    [of 1 0 "- 1" "[''root1'' \<mapsto> VInt 2, ''root2'' \<mapsto> VInt 1]"]
  by simp

end
